theory Spec2Isabelle
  imports Complex_Main
begin

section \<open>The host language: strings, numbers and the coercing operators\<close>

text \<open>
  The program is JavaScript. Its values are untyped, and its comparisons
  (\<^verbatim>\<open>==\<close>, \<^verbatim>\<open><\<close>, \<^verbatim>\<open>>=\<close>, ...) coerce their operands. This section
  fixes the part of the host language the program relies on.

  \<^item> A string is a \<^typ>\<open>string\<close>: the model covers strings of 8-bit characters,
    and case conversion covers the Latin letters \<^verbatim>\<open>a\<close> to \<^verbatim>\<open>z\<close>.
  \<^item> A number is not-a-number, an infinity or a finite value. Finite values are
    exact rationals: rounding to binary64 is not modelled, so the model agrees
    with the host on every operand that binary64 represents exactly (all
    integers of magnitude up to \<open>2 ^ 53\<close> among them).
  \<^item> Objects, symbols and big integers are left out of \<open>jsval\<close>: every
    parameter of the program is documented as a string, a number, a boolean or
    an array of such values.
\<close>

datatype jsnum = NaN | Fin rat | PosInf | NegInf

datatype jsval = JUndefined | JNull | JBool bool | JNum jsnum | JStr string

subsection \<open>\<^verbatim>\<open>String.prototype.toUpperCase\<close>\<close>

definition upper_char :: "char \<Rightarrow> char" where
  "upper_char c =
     (if (97::nat) \<le> of_char c \<and> of_char c \<le> (122::nat)
      then char_of (of_char c - (32::nat)) else c)"

definition toUpperCase :: "string \<Rightarrow> string" where
  "toUpperCase s = map upper_char s"

subsection \<open>\<^verbatim>\<open>StringToNumber\<close>: the numeric reading of a string\<close>

definition is_ws :: "char \<Rightarrow> bool" where
  "is_ws c = (of_char c \<in> {9::nat, 10, 11, 12, 13, 32})"

definition trim :: "string \<Rightarrow> string" where
  "trim s = rev (dropWhile is_ws (rev (dropWhile is_ws s)))"

definition digit_of :: "int \<Rightarrow> char \<Rightarrow> int option" where
  "digit_of base c =
     (let n = (of_char c :: int);
          d = (if 48 \<le> n \<and> n \<le> 57 then Some (n - 48)
               else if 97 \<le> n \<and> n \<le> 102 then Some (n - 87)
               else if 65 \<le> n \<and> n \<le> 70 then Some (n - 55)
               else None)
      in case d of None \<Rightarrow> None | Some v \<Rightarrow> if v < base then Some v else None)"

definition all_digits :: "int \<Rightarrow> string \<Rightarrow> bool" where
  "all_digits base s = list_all (\<lambda>c. digit_of base c \<noteq> None) s"

definition digits_value :: "int \<Rightarrow> string \<Rightarrow> int" where
  "digits_value base s =
     foldl (\<lambda>a c. a * base + (case digit_of base c of None \<Rightarrow> 0 | Some v \<Rightarrow> v)) 0 s"

text \<open>The exponent part after \<^verbatim>\<open>e\<close> or \<^verbatim>\<open>E\<close>: an optional sign and at least one digit.\<close>

definition exponent_of :: "string \<Rightarrow> int option" where
  "exponent_of s =
     (case s of
        [] \<Rightarrow> None
      | c # cs \<Rightarrow>
          if c = CHR ''+'' then
            (if cs \<noteq> [] \<and> all_digits 10 cs then Some (digits_value 10 cs) else None)
          else if c = CHR ''-'' then
            (if cs \<noteq> [] \<and> all_digits 10 cs then Some (- digits_value 10 cs) else None)
          else if all_digits 10 s then Some (digits_value 10 s) else None)"

definition scale10 :: "rat \<Rightarrow> int \<Rightarrow> rat" where
  "scale10 r e = (if 0 \<le> e then r * 10 ^ nat e else r / 10 ^ nat (- e))"

text \<open>
  An unsigned decimal literal: digits, an optional fraction and an optional
  exponent, with at least one digit before or after the point.
\<close>

definition unsigned_decimal :: "string \<Rightarrow> rat option" where
  "unsigned_decimal s =
     (let is_e = (\<lambda>c. c = CHR ''e'' \<or> c = CHR ''E'');
          mant = takeWhile (\<lambda>c. \<not> is_e c) s;
          rest = dropWhile (\<lambda>c. \<not> is_e c) s;
          ip = takeWhile (\<lambda>c. c \<noteq> CHR ''.'') mant;
          dot = dropWhile (\<lambda>c. c \<noteq> CHR ''.'') mant;
          fp = (case dot of [] \<Rightarrow> [] | _ # f \<Rightarrow> f);
          ex = (case rest of [] \<Rightarrow> Some 0 | _ # e \<Rightarrow> exponent_of e)
      in if all_digits 10 ip \<and> all_digits 10 fp \<and> (ip \<noteq> [] \<or> fp \<noteq> [])
         then (case ex of
                 None \<Rightarrow> None
               | Some e \<Rightarrow>
                   Some (scale10 (of_int (digits_value 10 ip)
                                  + of_int (digits_value 10 fp) / 10 ^ length fp) e))
         else None)"

definition signless_number :: "string \<Rightarrow> jsnum" where
  "signless_number s =
     (if s = ''Infinity'' then PosInf
      else case unsigned_decimal s of None \<Rightarrow> NaN | Some r \<Rightarrow> Fin r)"

definition negate_num :: "jsnum \<Rightarrow> jsnum" where
  "negate_num n =
     (case n of NaN \<Rightarrow> NaN | Fin r \<Rightarrow> Fin (- r) | PosInf \<Rightarrow> NegInf | NegInf \<Rightarrow> PosInf)"

definition radix_literal :: "string \<Rightarrow> jsnum option" where
  "radix_literal s =
     (case s of
        z # p # ds \<Rightarrow>
          if z = CHR ''0'' \<and> (p = CHR ''x'' \<or> p = CHR ''X'') then
            Some (if ds \<noteq> [] \<and> all_digits 16 ds then Fin (of_int (digits_value 16 ds)) else NaN)
          else if z = CHR ''0'' \<and> (p = CHR ''o'' \<or> p = CHR ''O'') then
            Some (if ds \<noteq> [] \<and> all_digits 8 ds then Fin (of_int (digits_value 8 ds)) else NaN)
          else if z = CHR ''0'' \<and> (p = CHR ''b'' \<or> p = CHR ''B'') then
            Some (if ds \<noteq> [] \<and> all_digits 2 ds then Fin (of_int (digits_value 2 ds)) else NaN)
          else None
      | _ \<Rightarrow> None)"

definition StringToNumber :: "string \<Rightarrow> jsnum" where
  "StringToNumber str =
     (let s = trim str in
      case s of
        [] \<Rightarrow> Fin 0
      | c # cs \<Rightarrow>
          (case radix_literal s of
             Some n \<Rightarrow> n
           | None \<Rightarrow>
               if c = CHR ''+'' then signless_number cs
               else if c = CHR ''-'' then negate_num (signless_number cs)
               else signless_number s))"

subsection \<open>\<^verbatim>\<open>ToNumber\<close>, loose equality and the relational operators\<close>

definition ToNumber :: "jsval \<Rightarrow> jsnum" where
  "ToNumber v =
     (case v of
        JUndefined \<Rightarrow> NaN
      | JNull \<Rightarrow> Fin 0
      | JBool b \<Rightarrow> Fin (if b then 1 else 0)
      | JNum n \<Rightarrow> n
      | JStr s \<Rightarrow> StringToNumber s)"

definition num_eq :: "jsnum \<Rightarrow> jsnum \<Rightarrow> bool" where
  "num_eq a b = (a \<noteq> NaN \<and> a = b)"

text \<open>\<open>None\<close> is the host's \<^verbatim>\<open>undefined\<close>: a comparison with not-a-number.\<close>

definition num_lt :: "jsnum \<Rightarrow> jsnum \<Rightarrow> bool option" where
  "num_lt a b =
     (case (a, b) of
        (NaN, _) \<Rightarrow> None
      | (_, NaN) \<Rightarrow> None
      | (Fin x, Fin y) \<Rightarrow> Some (x < y)
      | (NegInf, NegInf) \<Rightarrow> Some False
      | (NegInf, _) \<Rightarrow> Some True
      | (_, NegInf) \<Rightarrow> Some False
      | (PosInf, _) \<Rightarrow> Some False
      | (_, PosInf) \<Rightarrow> Some True)"

text \<open>Strings compare by their code units, a proper prefix first.\<close>

fun str_lt :: "string \<Rightarrow> string \<Rightarrow> bool" where
  "str_lt [] [] = False"
| "str_lt [] (y # ys) = True"
| "str_lt (x # xs) [] = False"
| "str_lt (x # xs) (y # ys) =
     (if (of_char x :: nat) < of_char y then True
      else if (of_char y :: nat) < of_char x then False
      else str_lt xs ys)"

definition IsLooselyEqual :: "jsval \<Rightarrow> jsval \<Rightarrow> bool" where
  "IsLooselyEqual a b =
     (case (a, b) of
        (JUndefined, JUndefined) \<Rightarrow> True
      | (JUndefined, JNull) \<Rightarrow> True
      | (JNull, JUndefined) \<Rightarrow> True
      | (JNull, JNull) \<Rightarrow> True
      | (JUndefined, _) \<Rightarrow> False
      | (JNull, _) \<Rightarrow> False
      | (_, JUndefined) \<Rightarrow> False
      | (_, JNull) \<Rightarrow> False
      | (JStr x, JStr y) \<Rightarrow> x = y
      | (JBool x, JBool y) \<Rightarrow> x = y
      | (_, _) \<Rightarrow> num_eq (ToNumber a) (ToNumber b))"

definition IsLessThan :: "jsval \<Rightarrow> jsval \<Rightarrow> bool option" where
  "IsLessThan a b =
     (case (a, b) of
        (JStr x, JStr y) \<Rightarrow> Some (str_lt x y)
      | (_, _) \<Rightarrow> num_lt (ToNumber a) (ToNumber b))"

text \<open>The operators as the source writes them: \<^verbatim>\<open>a == b\<close>, \<^verbatim>\<open>a < b\<close>, \<^verbatim>\<open>a > b\<close>, \<^verbatim>\<open>a <= b\<close>, \<^verbatim>\<open>a >= b\<close>.\<close>

definition js_eq :: "jsval \<Rightarrow> jsval \<Rightarrow> bool" where
  "js_eq a b = IsLooselyEqual a b"

definition js_lt :: "jsval \<Rightarrow> jsval \<Rightarrow> bool" where
  "js_lt a b = (IsLessThan a b = Some True)"

definition js_gt :: "jsval \<Rightarrow> jsval \<Rightarrow> bool" where
  "js_gt a b = (IsLessThan b a = Some True)"

definition js_le :: "jsval \<Rightarrow> jsval \<Rightarrow> bool" where
  "js_le a b = (IsLessThan b a = Some False)"

definition js_ge :: "jsval \<Rightarrow> jsval \<Rightarrow> bool" where
  "js_ge a b = (IsLessThan a b = Some False)"

text \<open>\<^verbatim>\<open>String.prototype.includes\<close>: the argument occurs as a contiguous part.\<close>

fun starts_with :: "string \<Rightarrow> string \<Rightarrow> bool" where
  "starts_with s [] = True"
| "starts_with [] (p # ps) = False"
| "starts_with (c # cs) (p # ps) = (c = p \<and> starts_with cs ps)"

fun includes_str :: "string \<Rightarrow> string \<Rightarrow> bool" where
  "includes_str [] sub = (sub = [])"
| "includes_str (c # cs) sub = (starts_with (c # cs) sub \<or> includes_str cs sub)"

section \<open>The process: environment table, file system, console\<close>

text \<open>
  A diagnostic message is a template literal. Its literal chunks are kept as
  text and each interpolated value is kept as the value itself: the host's
  conversion of a value to text (\<^verbatim>\<open>ToString\<close>, \<^verbatim>\<open>JSON.stringify\<close>) is not
  unfolded.
\<close>

datatype piece =
    Lit string
  | Sub jsval
  | SubArray "jsval list"
  | Json jsval

type_synonym message = "piece list"

datatype node = File | Dir

datatype errno = ENOENT | ENOTDIR | EEXIST

datatype js_error =
    Error message
  | SyntaxError
  | SystemError errno

text \<open>
  The world a call runs in: \<^verbatim>\<open>process.env\<close> (keys are case-sensitive, as on
  POSIX systems), the directory tree (a path is the list of its components
  below the root; permissions and symbolic links are not modelled),
  \<^verbatim>\<open>process.cwd()\<close>, and the lines written to the console so far.
\<close>

record world =
  env :: "string \<rightharpoonup> string"
  fs :: "string list \<rightharpoonup> node"
  cwd :: string
  out :: "message list"

text \<open>
  A call returns a value, ends the process with an exit code, or throws an
  error the caller can catch. Each outcome carries the world it leaves.
\<close>

datatype 'a outcome =
    Return 'a world
  | Exit nat world
  | Throw js_error world

subsection \<open>\<^verbatim>\<open>path.resolve\<close>, \<^verbatim>\<open>fs.existsSync\<close>, \<^verbatim>\<open>fs.mkdirSync\<close>\<close>

fun split_on :: "char \<Rightarrow> string \<Rightarrow> string list" where
  "split_on d [] = [[]]"
| "split_on d (c # cs) =
     (if c = d then [] # split_on d cs
      else (case split_on d cs of [] \<Rightarrow> [[c]] | x # xs \<Rightarrow> (c # x) # xs))"

fun normalize :: "string list \<Rightarrow> string list \<Rightarrow> string list" where
  "normalize acc [] = acc"
| "normalize acc (s # ss) =
     (if s = [] \<or> s = ''.'' then normalize acc ss
      else if s = ''..'' then normalize (butlast acc) ss
      else normalize (acc @ [s]) ss)"

definition parts_of :: "string \<Rightarrow> string list" where
  "parts_of p = normalize [] (split_on CHR ''/'' p)"

definition join_abs :: "string list \<Rightarrow> string" where
  "join_abs ps = (if ps = [] then ''/'' else concat (map (\<lambda>s. CHR ''/'' # s) ps))"

definition path_resolve :: "string \<Rightarrow> string \<Rightarrow> string" where
  "path_resolve dir p =
     (case p of
        [] \<Rightarrow> join_abs (parts_of dir)
      | c # _ \<Rightarrow>
          if c = CHR ''/'' then join_abs (parts_of p)
          else join_abs (parts_of (dir @ ''/'' @ p)))"

definition node_at :: "(string list \<rightharpoonup> node) \<Rightarrow> string list \<Rightarrow> node option" where
  "node_at t ps = (if ps = [] then Some Dir else t ps)"

text \<open>
  Looking a path up walks it from the root, as the host does: a component
  that is missing ends the walk with \<^verbatim>\<open>ENOENT\<close>, and a component that is a file
  with further components below it ends the walk with \<^verbatim>\<open>ENOTDIR\<close>.
  \<open>walk t pre ss\<close> has reached \<open>pre\<close> and has \<open>ss\<close> left to go.
\<close>

fun walk :: "(string list \<rightharpoonup> node) \<Rightarrow> string list \<Rightarrow> string list \<Rightarrow> errno + node" where
  "walk t pre [] = (case node_at t pre of None \<Rightarrow> Inl ENOENT | Some k \<Rightarrow> Inr k)"
| "walk t pre (s # ss) =
     (case node_at t pre of
        None \<Rightarrow> Inl ENOENT
      | Some File \<Rightarrow> Inl ENOTDIR
      | Some Dir \<Rightarrow> walk t (pre @ [s]) ss)"

definition lookup_node :: "(string list \<rightharpoonup> node) \<Rightarrow> string list \<Rightarrow> errno + node" where
  "lookup_node t ps = walk t [] ps"

text \<open>\<^verbatim>\<open>fs.existsSync(p)\<close>: the lookup of \<open>p\<close> succeeds.\<close>

definition existsSync :: "(string list \<rightharpoonup> node) \<Rightarrow> string \<Rightarrow> bool" where
  "existsSync t p = (case lookup_node t (parts_of p) of Inl e \<Rightarrow> False | Inr k \<Rightarrow> True)"

text \<open>
  \<^verbatim>\<open>fs.mkdirSync(p)\<close> without the \<^verbatim>\<open>recursive\<close> option. The host looks the
  parent of \<open>p\<close> up and throws the error of that lookup (\<^verbatim>\<open>ENOENT\<close> when a
  component is missing, \<^verbatim>\<open>ENOTDIR\<close> when one is a file); it throws \<^verbatim>\<open>ENOTDIR\<close>
  when the parent is a file and \<^verbatim>\<open>EEXIST\<close> when \<open>p\<close> is there already;
  otherwise it creates the one directory \<open>p\<close> inside its parent.
\<close>

definition mkdirSync :: "(string list \<rightharpoonup> node) \<Rightarrow> string \<Rightarrow> errno + (string list \<rightharpoonup> node)" where
  "mkdirSync t p =
     (let ps = parts_of p in
      case lookup_node t (butlast ps) of
        Inl e \<Rightarrow> Inl e
      | Inr File \<Rightarrow> Inl ENOTDIR
      | Inr Dir \<Rightarrow>
          if node_at t ps \<noteq> None then Inl EEXIST
          else Inr (t(ps \<mapsto> Dir)))"

section \<open>Value resolution\<close>

text \<open>
  \<^verbatim>\<open>fatal(message)\<close> of the final variant: three lines on the console
  (\<^verbatim>\<open>console.info\<close> without an argument writes an empty line), then
  \<^verbatim>\<open>process.exit(1)\<close>. Nothing after a call of \<open>fatal\<close> runs.
\<close>

definition fatal :: "message \<Rightarrow> world \<Rightarrow> 'a outcome" where
  "fatal message w =
     Exit 1 (w\<lparr>out := out w @ [message, [], [Lit ''Terminating application!'']]\<rparr>)"

text \<open>\<^verbatim>\<open>fatal(message)\<close> of the earlier variant in \<^verbatim>\<open>index.js\<close>: \<^verbatim>\<open>throw new Error(message)\<close>.\<close>

definition fatal_index :: "message \<Rightarrow> world \<Rightarrow> 'a outcome" where
  "fatal_index message w = Throw (Error message) w"

text \<open>The host's truthiness of \<^verbatim>\<open>process.env[k]\<close>: \<^verbatim>\<open>undefined\<close> and \<^verbatim>\<open>""\<close> are falsy.\<close>

definition truthy :: "string option \<Rightarrow> bool" where
  "truthy v = (case v of None \<Rightarrow> False | Some s \<Rightarrow> s \<noteq> [])"

text \<open>
  Lines 44 to 62 of \<open>getValue\<close>: the lookup under the upper-case name and the
  fallback to the name suffixed with the upper-case \<^verbatim>\<open>NODE_ENV\<close>. It returns the
  local \<^verbatim>\<open>value\<close> and the world.
\<close>

definition suffix_fallback :: "string \<Rightarrow> world \<Rightarrow> string option \<times> world" where
  "suffix_fallback name w =
     (let value = env w name in
      if \<not> truthy value \<and> truthy (env w ''NODE_ENV'') then
        (case env w ''NODE_ENV'' of
           None \<Rightarrow> (value, w)
         | Some mode \<Rightarrow>
             let newName = name @ ''_'' @ toUpperCase mode;
                 value = env w newName
             in if truthy value
                then (value, w\<lparr>env := ((env w)(name := value))(newName := None)\<rparr>)
                else (value, w))
      else (value, w))"

text \<open>The string a truthy lookup holds.\<close>

definition string_of :: "string option \<Rightarrow> string" where
  "string_of v = (case v of None \<Rightarrow> [] | Some s \<Rightarrow> s)"

text \<open>
  \<open>getValue\<close>. The parameter \<^verbatim>\<open>name\<close> is reassigned to its upper-case form,
  which stays local to this function. The default is a string, as the
  function documents it, and \<open>None\<close> is the omitted \<^verbatim>\<open>defaultValue\<close>.
\<close>

definition getValue :: "string \<Rightarrow> string option \<Rightarrow> world \<Rightarrow> string outcome" where
  \<open>getValue name0 defaultValue w =
     (if name0 = [] then fatal [Lit ''The "name" parameter is required!''] w
      else
        let name = toUpperCase name0;
            (value, w) = suffix_fallback name w
        in if \<not> truthy value \<or> value = Some [] then
             (if truthy defaultValue then
                Return (string_of defaultValue) (w\<lparr>env := (env w)(name := defaultValue)\<rparr>)
              else
                fatal [Lit ''The "'', Sub (JStr name),
                       Lit '' environment variable is undefined!''] w)
           else Return (string_of value) w)\<close>

section \<open>The chain\<close>

text \<open>
  \<open>confirm\<close> returns the object \<^verbatim>\<open>methods\<close>, whose methods share the closure
  variables \<^verbatim>\<open>name\<close>, \<^verbatim>\<open>value\<close>, \<^verbatim>\<open>_NOT_\<close> and \<^verbatim>\<open>valid\<close>. The chain is the record
  of these variables; every method takes it and returns it updated.
  \<^verbatim>\<open>name\<close> is the argument of \<open>confirm\<close> as it was passed: the upper-case
  name is local to \<open>getValue\<close>.
\<close>

record chain =
  chain_name :: string
  chain_value :: string
  chain_NOT :: bool
  chain_valid :: bool

definition confirm :: "string \<Rightarrow> string option \<Rightarrow> world \<Rightarrow> chain outcome" where
  "confirm name0 defaultValue w =
     (case getValue name0 defaultValue w of
        Return value w' \<Rightarrow>
          Return \<lparr>chain_name = name0, chain_value = value,
                  chain_NOT = False, chain_valid = False\<rparr> w'
      | Exit code w' \<Rightarrow> Exit code w'
      | Throw e w' \<Rightarrow> Throw e w')"

text \<open>The getter \<^verbatim>\<open>not\<close>.\<close>

definition not_m :: "chain \<Rightarrow> world \<Rightarrow> chain outcome" where
  "not_m c w = Return (c\<lparr>chain_NOT := \<not> chain_NOT c\<rparr>) w"

definition is_m :: "jsval \<Rightarrow> chain \<Rightarrow> world \<Rightarrow> chain outcome" where
  \<open>is_m compare c w =
     (let valid = js_eq (JStr (chain_value c)) compare;
          valid = (if chain_NOT c then \<not> valid else valid)
      in if \<not> chain_NOT c \<and> \<not> valid then
           fatal [Lit ''"'', Sub (JStr (chain_name c)), Lit ''" is '', Sub (JStr (chain_value c)),
                  Lit '' and must be equal to '', Sub compare] w
         else if chain_NOT c \<and> \<not> valid then
           fatal [Lit ''"'', Sub (JStr (chain_name c)), Lit ''" is '', Sub (JStr (chain_value c)),
                  Lit '' and must not be equal to '', Sub compare] w
         else Return (c\<lparr>chain_valid := valid, chain_NOT := False\<rparr>) w)\<close>

definition isDefined :: "chain \<Rightarrow> world \<Rightarrow> chain outcome" where
  \<open>isDefined c w =
     (let valid = (JStr (chain_value c) \<noteq> JUndefined);
          valid = (if chain_NOT c then \<not> valid else valid)
      in if \<not> chain_NOT c \<and> \<not> valid then
           fatal [Lit ''"'', Sub (JStr (chain_name c)), Lit ''" must be defined''] w
         else if chain_NOT c \<and> \<not> valid then
           fatal [Lit ''"'', Sub (JStr (chain_name c)), Lit ''" must not be defined''] w
         else Return (c\<lparr>chain_valid := valid, chain_NOT := False\<rparr>) w)\<close>

definition isEQ :: "jsval \<Rightarrow> chain \<Rightarrow> world \<Rightarrow> chain outcome" where
  \<open>isEQ compare c w =
     (let valid = js_eq (JStr (chain_value c)) compare;
          valid = (if chain_NOT c then \<not> valid else valid)
      in if \<not> chain_NOT c \<and> \<not> valid then
           fatal [Lit ''"'', Sub (JStr (chain_name c)), Lit ''" is '', Sub (JStr (chain_value c)),
                  Lit '' and must be equal to '', Sub compare] w
         else if chain_NOT c \<and> \<not> valid then
           fatal [Lit ''"'', Sub (JStr (chain_name c)), Lit ''" is '', Sub (JStr (chain_value c)),
                  Lit '' and must not be equal to '', Sub compare] w
         else Return (c\<lparr>chain_valid := valid, chain_NOT := False\<rparr>) w)\<close>

definition isGT :: "jsval \<Rightarrow> chain \<Rightarrow> world \<Rightarrow> chain outcome" where
  \<open>isGT compare c w =
     (let valid = js_gt (JStr (chain_value c)) compare;
          valid = (if chain_NOT c then \<not> valid else valid)
      in if \<not> chain_NOT c \<and> \<not> valid then
           fatal [Lit ''"'', Sub (JStr (chain_name c)), Lit ''" is '', Sub (JStr (chain_value c)),
                  Lit '' and must be greater than '', Sub compare] w
         else if chain_NOT c \<and> \<not> valid then
           fatal [Lit ''"'', Sub (JStr (chain_name c)), Lit ''" is '', Sub (JStr (chain_value c)),
                  Lit '' and must be less than or equal '', Sub compare] w
         else Return (c\<lparr>chain_valid := valid, chain_NOT := False\<rparr>) w)\<close>

definition isGE :: "jsval \<Rightarrow> chain \<Rightarrow> world \<Rightarrow> chain outcome" where
  \<open>isGE compare c w =
     (let valid = js_ge (JStr (chain_value c)) compare;
          valid = (if chain_NOT c then \<not> valid else valid)
      in if \<not> chain_NOT c \<and> \<not> valid then
           fatal [Lit ''"'', Sub (JStr (chain_name c)), Lit ''" is '', Sub (JStr (chain_value c)),
                  Lit '' and must be greater than or equal to '', Sub compare] w
         else if chain_NOT c \<and> \<not> valid then
           fatal [Lit ''"'', Sub (JStr (chain_name c)), Lit ''" is '', Sub (JStr (chain_value c)),
                  Lit '' and must be less than '', Sub compare] w
         else Return (c\<lparr>chain_valid := valid, chain_NOT := False\<rparr>) w)\<close>

definition isLT :: "jsval \<Rightarrow> chain \<Rightarrow> world \<Rightarrow> chain outcome" where
  \<open>isLT compare c w =
     (let valid = js_lt (JStr (chain_value c)) compare;
          valid = (if chain_NOT c then \<not> valid else valid)
      in if \<not> chain_NOT c \<and> \<not> valid then
           fatal [Lit ''"'', Sub (JStr (chain_name c)), Lit ''" is '', Sub (JStr (chain_value c)),
                  Lit '' and must be less than '', Sub compare] w
         else if chain_NOT c \<and> \<not> valid then
           fatal [Lit ''"'', Sub (JStr (chain_name c)), Lit ''" is '', Sub (JStr (chain_value c)),
                  Lit '' and must be greater than or equal '', Sub compare] w
         else Return (c\<lparr>chain_valid := valid, chain_NOT := False\<rparr>) w)\<close>

definition isLE :: "jsval \<Rightarrow> chain \<Rightarrow> world \<Rightarrow> chain outcome" where
  \<open>isLE compare c w =
     (let valid = js_le (JStr (chain_value c)) compare;
          valid = (if chain_NOT c then \<not> valid else valid)
      in if \<not> chain_NOT c \<and> \<not> valid then
           fatal [Lit ''"'', Sub (JStr (chain_name c)), Lit ''" is '', Sub (JStr (chain_value c)),
                  Lit '' and must be less than or equal to '', Sub compare] w
         else if chain_NOT c \<and> \<not> valid then
           fatal [Lit ''"'', Sub (JStr (chain_name c)), Lit ''" is '', Sub (JStr (chain_value c)),
                  Lit '' and must be greater than '', Sub compare] w
         else Return (c\<lparr>chain_valid := valid, chain_NOT := False\<rparr>) w)\<close>

text \<open>\<^verbatim>\<open>value.length\<close>, a number.\<close>

definition length_of :: "string \<Rightarrow> jsval" where
  "length_of s = JNum (Fin (of_int (int (length s))))"

definition hasLength :: "jsval \<Rightarrow> jsval \<Rightarrow> chain \<Rightarrow> world \<Rightarrow> chain outcome" where
  \<open>hasLength min_len max_len c w =
     (let valid = (js_ge (length_of (chain_value c)) min_len \<and> js_le (length_of (chain_value c)) max_len);
          valid = (if chain_NOT c then \<not> valid else valid)
      in if \<not> chain_NOT c \<and> \<not> valid then
           fatal [Lit ''"'', Sub (JStr (chain_name c)), Lit ''" is '', Sub (length_of (chain_value c)),
                  Lit '' long and must be between '', Sub min_len, Lit '' and '', Sub max_len,
                  Lit '' long''] w
         else if chain_NOT c \<and> \<not> valid then
           fatal [Lit ''"'', Sub (JStr (chain_name c)), Lit ''" is '', Sub (length_of (chain_value c)),
                  Lit '' long and must not be between '', Sub min_len, Lit '' and '', Sub max_len,
                  Lit '' long''] w
         else Return (c\<lparr>chain_valid := valid, chain_NOT := False\<rparr>) w)\<close>

definition contains :: "string \<Rightarrow> chain \<Rightarrow> world \<Rightarrow> chain outcome" where
  \<open>contains substring c w =
     (let valid = includes_str (chain_value c) substring;
          valid = (if chain_NOT c then \<not> valid else valid)
      in if \<not> chain_NOT c \<and> \<not> valid then
           fatal [Lit ''"'', Sub (JStr (chain_name c)), Lit ''" is "'', Sub (JStr (chain_value c)),
                  Lit '' "and must contain "'', Sub (JStr substring), Lit ''"''] w
         else if chain_NOT c \<and> \<not> valid then
           fatal [Lit ''"'', Sub (JStr (chain_name c)), Lit ''" is "'', Sub (JStr (chain_value c)),
                  Lit ''" and must not contain "'', Sub (JStr substring)] w
         else Return (c\<lparr>chain_valid := valid, chain_NOT := False\<rparr>) w)\<close>

text \<open>
  \<open>matches\<close>. The regular-expression engine is the host's and is a parameter:
  \<open>rx match value\<close> is \<^verbatim>\<open>new RegExp(match).test(value)\<close>, and \<open>None\<close> when the
  constructor rejects the pattern with a \<^verbatim>\<open>SyntaxError\<close>.
\<close>

definition matches ::
  "(string \<Rightarrow> string \<Rightarrow> bool option) \<Rightarrow> string \<Rightarrow> chain \<Rightarrow> world \<Rightarrow> chain outcome" where
  \<open>matches rx match c w =
     (case rx match (chain_value c) of
        None \<Rightarrow> Throw SyntaxError w
      | Some tested \<Rightarrow>
          let valid = tested;
              valid = (if chain_NOT c then \<not> valid else valid)
          in if \<not> chain_NOT c \<and> \<not> valid then
               fatal [Lit ''"'', Sub (JStr (chain_name c)), Lit ''" is "'', Sub (JStr (chain_value c)),
                      Lit '' "and does not match the regular expression "'', Sub (JStr match),
                      Lit ''"''] w
             else if chain_NOT c \<and> \<not> valid then
               fatal [Lit ''"'', Sub (JStr (chain_name c)), Lit ''" is "'', Sub (JStr (chain_value c)),
                      Lit ''" and must not matched the regular expression "'', Sub (JStr match)] w
             else Return (c\<lparr>chain_valid := valid, chain_NOT := False\<rparr>) w)\<close>

text \<open>
  \<open>arrayToText\<close>: the items as JSON texts, separated by a comma and a space,
  in square brackets.
\<close>

definition arrayToText :: "jsval list \<Rightarrow> message" where
  "arrayToText values =
     [Lit ''[''] @
     (case values of
        [] \<Rightarrow> []
      | v # vs \<Rightarrow> Json v # concat (map (\<lambda>item. [Lit '','', Lit '' '', Json item]) vs)) @
     [Lit '']'']"

text \<open>
  \<open>isIn\<close>. \<^verbatim>\<open>values.includes(value)\<close> compares without coercion, and
  \<^verbatim>\<open>value\<close> is a string: an item equals it when it is the same string.
\<close>

definition isIn :: "jsval list \<Rightarrow> chain \<Rightarrow> world \<Rightarrow> chain outcome" where
  \<open>isIn values c w =
     (let valid = List.member values (JStr (chain_value c));
          valid = (if chain_NOT c then \<not> valid else valid)
      in if \<not> chain_NOT c \<and> \<not> valid then
           fatal ([Lit ''"'', Sub (JStr (chain_name c)), Lit ''" is "'', Sub (JStr (chain_value c)),
                   Lit '' " and must be in the array ''] @ arrayToText values) w
         else if chain_NOT c \<and> \<not> valid then
           fatal [Lit ''"'', Sub (JStr (chain_name c)), Lit ''" is "'', Sub (JStr (chain_value c)),
                  Lit ''" and must not be in the array '', SubArray values] w
         else Return (c\<lparr>chain_valid := valid, chain_NOT := False\<rparr>) w)\<close>

text \<open>
  \<open>isPath\<close>. The parameter is \<^verbatim>\<open>force\<close>, \<open>True\<close> when the caller omits it.
  The method assigns the resolved path to \<^verbatim>\<open>value\<close> and to
  \<^verbatim>\<open>process.env[name]\<close> before it looks at the file system. An error of
  \<^verbatim>\<open>fs.mkdirSync\<close> is not caught.
\<close>

definition isPath :: "bool \<Rightarrow> chain \<Rightarrow> world \<Rightarrow> chain outcome" where
  \<open>isPath force c w =
     (let value = path_resolve (cwd w) (chain_value c);
          c = c\<lparr>chain_value := value\<rparr>;
          w = w\<lparr>env := (env w)(chain_name c \<mapsto> value)\<rparr>
      in if \<not> existsSync (fs w) value then
           (if force then
              (case mkdirSync (fs w) value of
                 Inl e \<Rightarrow> Throw (SystemError e) w
               | Inr t \<Rightarrow> Return (c\<lparr>chain_NOT := False\<rparr>) (w\<lparr>fs := t\<rparr>))
            else
              fatal [Lit ''"'', Sub (JStr (chain_name c)), Lit ''" is "'', Sub (JStr value),
                     Lit ''" but it does not exist!''] w)
         else Return (c\<lparr>chain_NOT := False\<rparr>) w)\<close>

subsection \<open>Chained calls\<close>

text \<open>
  An expression \<^verbatim>\<open>confirm(name, d).m1(...).m2(...)\<close> is a call of \<open>confirm\<close>
  followed by a list of member accesses, run from left to right until one of
  them does not return.
\<close>

datatype call =
    Not
  | Is jsval
  | IsDefined
  | IsEQ jsval
  | IsGT jsval
  | IsGE jsval
  | IsLT jsval
  | IsLE jsval
  | HasLength jsval jsval
  | Contains string
  | Matches string
  | IsIn "jsval list"
  | IsPath bool

fun invoke ::
  "(string \<Rightarrow> string \<Rightarrow> bool option) \<Rightarrow> call \<Rightarrow> chain \<Rightarrow> world \<Rightarrow> chain outcome" where
  "invoke rx Not c w = not_m c w"
| "invoke rx (Is x) c w = is_m x c w"
| "invoke rx IsDefined c w = isDefined c w"
| "invoke rx (IsEQ x) c w = isEQ x c w"
| "invoke rx (IsGT x) c w = isGT x c w"
| "invoke rx (IsGE x) c w = isGE x c w"
| "invoke rx (IsLT x) c w = isLT x c w"
| "invoke rx (IsLE x) c w = isLE x c w"
| "invoke rx (HasLength lo hi) c w = hasLength lo hi c w"
| "invoke rx (Contains s) c w = contains s c w"
| "invoke rx (Matches p) c w = matches rx p c w"
| "invoke rx (IsIn vs) c w = isIn vs c w"
| "invoke rx (IsPath force) c w = isPath force c w"

fun run_chain ::
  "(string \<Rightarrow> string \<Rightarrow> bool option) \<Rightarrow> call list \<Rightarrow> chain \<Rightarrow> world \<Rightarrow> chain outcome" where
  "run_chain rx [] c w = Return c w"
| "run_chain rx (m # ms) c w =
     (case invoke rx m c w of
        Return c' w' \<Rightarrow> run_chain rx ms c' w'
      | Exit code w' \<Rightarrow> Exit code w'
      | Throw e w' \<Rightarrow> Throw e w')"

definition run ::
  "(string \<Rightarrow> string \<Rightarrow> bool option) \<Rightarrow> string \<Rightarrow> string option \<Rightarrow> call list \<Rightarrow> world
     \<Rightarrow> chain outcome" where
  "run rx name0 defaultValue ms w =
     (case confirm name0 defaultValue w of
        Return c w' \<Rightarrow> run_chain rx ms c w'
      | Exit code w' \<Rightarrow> Exit code w'
      | Throw e w' \<Rightarrow> Throw e w')"

section \<open>Auxiliary notions for the statements\<close>

text \<open>
  Erasing the empty bindings of an environment table: every key bound to the
  empty string becomes unbound.
\<close>

definition erase_opt :: "string option \<Rightarrow> string option" where
  "erase_opt v = (if v = Some [] then None else v)"

definition erase_empty :: "(string \<rightharpoonup> string) \<Rightarrow> (string \<rightharpoonup> string)" where
  "erase_empty e = (\<lambda>k. erase_opt (e k))"

definition erase_world :: "world \<Rightarrow> world" where
  "erase_world w = w\<lparr>env := erase_empty (env w)\<rparr>"

fun map_world :: "(world \<Rightarrow> world) \<Rightarrow> 'a outcome \<Rightarrow> 'a outcome" where
  "map_world f (Return x w) = Return x (f w)"
| "map_world f (Exit code w) = Exit code (f w)"
| "map_world f (Throw e w) = Throw e (f w)"

text \<open>
  A process started in \<^verbatim>\<open>/app\<close> with a given environment table and directory
  tree and nothing written yet, and a chain as \<open>confirm\<close> creates it.
\<close>

definition started :: "(string \<times> string) list \<Rightarrow> (string list \<times> node) list \<Rightarrow> world" where
  "started vars nodes = \<lparr>env = map_of vars, fs = map_of nodes, cwd = ''/app'', out = []\<rparr>"

definition fresh_chain :: "string \<Rightarrow> string \<Rightarrow> chain" where
  "fresh_chain n v = \<lparr>chain_name = n, chain_value = v, chain_NOT = False, chain_valid = False\<rparr>"

text \<open>
  The boolean result a predicate computes from the chain's value, before the
  pending negation is applied. \<open>None\<close>: the member computes no such result
  (\<^verbatim>\<open>not\<close>, \<open>isPath\<close>), or the host rejects the pattern of \<open>matches\<close>.
\<close>

fun relation_holds ::
  "(string \<Rightarrow> string \<Rightarrow> bool option) \<Rightarrow> string \<Rightarrow> call \<Rightarrow> bool option" where
  "relation_holds rx v Not = None"
| "relation_holds rx v (Is x) = Some (js_eq (JStr v) x)"
| "relation_holds rx v IsDefined = Some (JStr v \<noteq> JUndefined)"
| "relation_holds rx v (IsEQ x) = Some (js_eq (JStr v) x)"
| "relation_holds rx v (IsGT x) = Some (js_gt (JStr v) x)"
| "relation_holds rx v (IsGE x) = Some (js_ge (JStr v) x)"
| "relation_holds rx v (IsLT x) = Some (js_lt (JStr v) x)"
| "relation_holds rx v (IsLE x) = Some (js_le (JStr v) x)"
| "relation_holds rx v (HasLength lo hi) =
     Some (js_ge (length_of v) lo \<and> js_le (length_of v) hi)"
| "relation_holds rx v (Contains s) = Some (includes_str v s)"
| "relation_holds rx v (Matches p) = rx p v"
| "relation_holds rx v (IsIn vs) = Some (List.member vs (JStr v))"
| "relation_holds rx v (IsPath force) = None"

text \<open>The host's engine is not needed where no pattern is matched.\<close>

definition no_regexp :: "string \<Rightarrow> string \<Rightarrow> bool option" where
  "no_regexp p s = None"

text \<open>
  Comparing the run for a name \<open>n\<close> with the run for its upper-case form.
  \<open>upper_name n\<close> reads a message with the interpolated string \<open>n\<close> in upper
  case. Two worlds are the same process state when they agree on the
  directory tree, on the working directory and on every line written, read in
  this way, and, where \<open>b\<close> asks for it, on the environment table. Two
  outcomes are the same when they are of the same kind (return, exit with the
  same code, throw of the same error) and leave the same process state; two
  returned chains hold the names \<open>n\<close> and \<open>toUpperCase n\<close> and agree on the
  value and the flags.
\<close>

definition upper_name :: "string \<Rightarrow> piece \<Rightarrow> piece" where
  "upper_name n p = (if p = Sub (JStr n) then Sub (JStr (toUpperCase n)) else p)"

definition same_process :: "string \<Rightarrow> bool \<Rightarrow> world \<Rightarrow> world \<Rightarrow> bool" where
  "same_process n b w w' =
     (fs w = fs w' \<and> cwd w = cwd w'
      \<and> map (map (upper_name n)) (out w) = map (map (upper_name n)) (out w')
      \<and> (b \<longrightarrow> env w = env w'))"

fun same_outcome :: "string \<Rightarrow> bool \<Rightarrow> chain outcome \<Rightarrow> chain outcome \<Rightarrow> bool" where
  "same_outcome n b (Return c w) (Return c' w') =
     (chain_name c = n \<and> c' = c\<lparr>chain_name := toUpperCase n\<rparr> \<and> same_process n b w w')"
| "same_outcome n b (Exit k w) (Exit k' w') = (k = k' \<and> same_process n b w w')"
| "same_outcome n b (Throw e w) (Throw e' w') = (e = e' \<and> same_process n b w w')"
| "same_outcome n b _ _ = False"

fun is_path_call :: "call \<Rightarrow> bool" where
  "is_path_call (IsPath force) = True"
| "is_path_call _ = False"

definition path_free :: "call list \<Rightarrow> bool" where
  "path_free ms = list_all (\<lambda>m. \<not> is_path_call m) ms"

section \<open>Basic facts\<close>

lemma upper_char_idem: "upper_char (upper_char c) = upper_char c"
proof -
  have "of_char (char_of (of_char c - (32::nat))) = (of_char c - (32::nat)) mod 256"
    by (rule of_char_of)
  then show ?thesis
    by (auto simp: upper_char_def)
qed

lemma toUpperCase_idem: "toUpperCase (toUpperCase s) = toUpperCase s"
  by (simp add: toUpperCase_def upper_char_idem)

lemma toUpperCase_Nil_iff: "toUpperCase s = [] \<longleftrightarrow> s = []"
  by (simp add: toUpperCase_def)

lemma truthy_simps: "truthy None = False" "truthy (Some s) = (s \<noteq> [])"
  by (simp_all add: truthy_def)

lemma fatal_eq_iff: "(fatal m w = (fatal m' w :: 'a outcome)) \<longleftrightarrow> m = m'"
  by (auto simp: fatal_def dest!: arg_cong[where f=out])

lemma started_simps:
  "env (started vars nodes) = map_of vars"
  "fs (started vars nodes) = map_of nodes"
  "cwd (started vars nodes) = ''/app''"
  "out (started vars nodes) = []"
  by (simp_all add: started_def)

section \<open>Resolution: the suffix fallback\<close>

lemma suffix_fallback_found:
  assumes "\<not> truthy (env w name)"
    and "env w ''NODE_ENV'' = Some mode" and "mode \<noteq> []"
    and "env w (name @ ''_'' @ toUpperCase mode) = Some v" and "v \<noteq> []"
  shows "suffix_fallback name w =
           (Some v, w\<lparr>env := ((env w)(name \<mapsto> v))(name @ ''_'' @ toUpperCase mode := None)\<rparr>)"
  using assms by (simp add: suffix_fallback_def truthy_simps Let_def)

lemma suffix_fallback_unchanged:
  "\<not> truthy (fst (suffix_fallback name w)) \<Longrightarrow> snd (suffix_fallback name w) = w"
  by (auto simp: suffix_fallback_def Let_def split: option.splits if_splits)

text \<open>
  Claim C2. Let the upper-case form of a non-empty name \<open>n\<close> be unbound, or
  bound to the empty string, in the environment table, and let \<^verbatim>\<open>NODE_ENV\<close> be
  bound to a non-empty \<open>mode\<close>. If the suffixed name (the upper-case name, an
  underscore, the upper-case mode) is bound to a non-empty \<open>v\<close>, then
  \<open>confirm n\<close> returns a chain whose value is \<open>v\<close>; afterwards the table
  binds the upper-case name to \<open>v\<close>, no longer binds the suffixed name, and
  is unchanged at every other key.
\<close>

theorem confirm_suffix_fallback:
  assumes "n \<noteq> []"
    and "\<not> truthy (env w (toUpperCase n))"
    and "env w ''NODE_ENV'' = Some mode" and "mode \<noteq> []"
    and "env w (toUpperCase n @ ''_'' @ toUpperCase mode) = Some v" and "v \<noteq> []"
  shows "\<exists>w'. confirm n d w =
             Return \<lparr>chain_name = n, chain_value = v, chain_NOT = False, chain_valid = False\<rparr> w'
           \<and> env w' (toUpperCase n) = Some v
           \<and> env w' (toUpperCase n @ ''_'' @ toUpperCase mode) = None
           \<and> (\<forall>k. k \<noteq> toUpperCase n \<and> k \<noteq> toUpperCase n @ ''_'' @ toUpperCase mode
                  \<longrightarrow> env w' k = env w k)"
proof -
  have "confirm n d w =
      Return \<lparr>chain_name = n, chain_value = v, chain_NOT = False, chain_valid = False\<rparr>
        (w\<lparr>env := ((env w)(toUpperCase n \<mapsto> v))
                     (toUpperCase n @ ''_'' @ toUpperCase mode := None)\<rparr>)"
    using assms(1,6) suffix_fallback_found[OF assms(2-6)]
    by (simp add: confirm_def getValue_def Let_def truthy_simps string_of_def)
  then show ?thesis by simp
qed

lemma upper_db_url: "toUpperCase ''db_url'' = ''DB_URL''"
  by code_simp

lemma upper_test: "toUpperCase ''test'' = ''TEST''"
  by code_simp

theorem confirm_suffix_fallback_witness:
  "\<exists>w'. confirm ''db_url'' None
            (started [(''NODE_ENV'', ''test''), (''DB_URL_TEST'', ''mongodb://localhost'')] []) =
          Return (fresh_chain ''db_url'' ''mongodb://localhost'') w'
        \<and> env w' ''DB_URL'' = Some ''mongodb://localhost''
        \<and> env w' ''DB_URL_TEST'' = None"
  using confirm_suffix_fallback
    [of "''db_url''"
        "started [(''NODE_ENV'', ''test''), (''DB_URL_TEST'', ''mongodb://localhost'')] []"
        "''test''" "''mongodb://localhost''" None]
  by (simp add: upper_db_url upper_test started_simps truthy_simps fresh_chain_def) blast

section \<open>Resolution: the default and the configuration error\<close>

text \<open>
  Claim C3. Let \<open>n\<close> be a non-empty name whose value is still absent or empty
  after the suffix fallback. With a non-empty default \<open>d\<close>, \<open>getValue\<close>
  returns \<open>d\<close> and binds the upper-case name to \<open>d\<close> in the table. Without a
  default it ends the process with a message that names the upper-case
  variable.
\<close>

theorem getValue_default_or_error:
  assumes "n \<noteq> []"
    and "\<not> truthy (fst (suffix_fallback (toUpperCase n) w))"
  shows \<open>(d \<noteq> [] \<longrightarrow>
            getValue n (Some d) w = Return d (w\<lparr>env := (env w)(toUpperCase n \<mapsto> d)\<rparr>))
       \<and> getValue n None w =
            fatal [Lit ''The "'', Sub (JStr (toUpperCase n)),
                   Lit '' environment variable is undefined!''] w\<close>
proof -
  obtain v where sf: "suffix_fallback (toUpperCase n) w = (v, w)"
    using suffix_fallback_unchanged[OF assms(2)] by (cases "suffix_fallback (toUpperCase n) w") auto
  with assms(2) have v: "v = None \<or> v = Some []"
    by (cases v) (auto simp: truthy_simps)
  show ?thesis
    using assms(1) sf v by (auto simp: Let_def getValue_def truthy_simps string_of_def)
qed

lemma upper_api_key: "toUpperCase ''api_key'' = ''API_KEY''"
  by code_simp

theorem getValue_default_or_error_witness:
  \<open>getValue ''api_key'' (Some ''fallback'') (started [(''NODE_ENV'', ''test'')] []) =
     Return ''fallback''
       ((started [(''NODE_ENV'', ''test'')] [])
          \<lparr>env := (map_of [(''NODE_ENV'', ''test'')])(''API_KEY'' \<mapsto> ''fallback'')\<rparr>)
   \<and> getValue ''api_key'' None (started [(''NODE_ENV'', ''test'')] []) =
       fatal [Lit ''The "'', Sub (JStr ''API_KEY''), Lit '' environment variable is undefined!'']
         (started [(''NODE_ENV'', ''test'')] [])\<close>
  using getValue_default_or_error
    [of "''api_key''" "started [(''NODE_ENV'', ''test'')] []" "''fallback''"]
  by (simp add: upper_api_key upper_test started_simps truthy_simps suffix_fallback_def Let_def)

section \<open>Resolution: the empty string\<close>

lemma truthy_erase_opt: "truthy (erase_opt v) = truthy v"
  by (simp add: erase_opt_def truthy_def)

lemma erase_opt_truthy: "truthy v \<Longrightarrow> erase_opt v = v"
  by (auto simp add: erase_opt_def truthy_def)

lemma erase_empty_upd: "truthy v \<Longrightarrow> erase_empty (e(k := v)) = (erase_empty e)(k := v)"
  by (auto simp: erase_empty_def fun_eq_iff erase_opt_truthy)

lemma erase_empty_del: "erase_empty (e(k := None)) = (erase_empty e)(k := None)"
  by (auto simp: erase_empty_def erase_opt_def fun_eq_iff)

lemma env_erase_world: "env (erase_world w) k = erase_opt (env w k)"
  by (simp add: erase_world_def erase_empty_def)

lemma suffix_fallback_erase:
  "suffix_fallback name (erase_world w) =
     (erase_opt (fst (suffix_fallback name w)), erase_world (snd (suffix_fallback name w)))"
proof (cases "\<not> truthy (env w name) \<and> truthy (env w ''NODE_ENV'')")
  case False
  then show ?thesis
    by (auto simp: suffix_fallback_def Let_def env_erase_world truthy_erase_opt)
next
  case True
  then obtain mode where m: "env w ''NODE_ENV'' = Some mode" "mode \<noteq> []"
    by (cases "env w ''NODE_ENV''") (auto simp: truthy_simps)
  then have m': "env (erase_world w) ''NODE_ENV'' = Some mode"
    by (simp add: env_erase_world erase_opt_def)
  show ?thesis
  proof (cases "truthy (env w (name @ ''_'' @ toUpperCase mode))")
    case found: True
    then show ?thesis using True m m'
      by (simp add: suffix_fallback_def Let_def env_erase_world truthy_erase_opt erase_opt_truthy)
         (simp add: erase_world_def erase_empty_upd erase_empty_del)
  next
    case missing: False
    then show ?thesis using True m m'
      by (simp add: suffix_fallback_def Let_def env_erase_world truthy_erase_opt)
  qed
qed

text \<open>
  Claim C9. Resolution treats the empty string as an unset variable at every
  step. Erasing all empty bindings from the table before \<open>getValue\<close> runs
  changes nothing in what it does: the same value is returned or the same
  message is printed, and the table it leaves is the one of the original run
  with its empty bindings erased. So a name, a \<^verbatim>\<open>NODE_ENV\<close> or a suffixed name
  bound to \<^verbatim>\<open>""\<close> takes the path of an absent one. A default equal to \<^verbatim>\<open>""\<close>
  behaves as an omitted default.
\<close>

theorem empty_string_is_unset:
  "getValue n d (erase_world w) = map_world erase_world (getValue n d w)
   \<and> getValue n (Some []) w = getValue n None w"
proof
  show "getValue n (Some []) w = getValue n None w"
    by (simp add: getValue_def truthy_simps Let_def split: prod.splits)
  obtain v w1 where sf: "suffix_fallback (toUpperCase n) w = (v, w1)"
    by (cases "suffix_fallback (toUpperCase n) w")
  have sf': "suffix_fallback (toUpperCase n) (erase_world w) = (erase_opt v, erase_world w1)"
    using suffix_fallback_erase[of "toUpperCase n" w] sf by simp
  have fat: "\<And>m x. (fatal m (erase_world x) :: string outcome) = map_world erase_world (fatal m x)"
    by (simp add: fatal_def erase_world_def)
  have upd: "\<And>x k s. s \<noteq> [] \<Longrightarrow>
      erase_world x\<lparr>env := (env (erase_world x))(k \<mapsto> s)\<rparr> = erase_world (x\<lparr>env := (env x)(k \<mapsto> s)\<rparr>)"
    by (simp add: erase_world_def erase_empty_upd truthy_simps)
  show "getValue n d (erase_world w) = map_world erase_world (getValue n d w)"
  proof (cases "truthy d")
    case True
    then show ?thesis
      using sf sf'
      by (cases d)
         (auto simp: Let_def getValue_def fat upd truthy_simps truthy_erase_opt erase_opt_def
            string_of_def)
  next
    case False
    then show ?thesis
      using sf sf'
      by (auto simp: Let_def getValue_def fat truthy_simps truthy_erase_opt erase_opt_def
            string_of_def)
  qed
qed

text \<open>
  An instance: with \<^verbatim>\<open>API_KEY\<close> bound to \<^verbatim>\<open>""\<close>, without a default or with the
  default \<^verbatim>\<open>""\<close>, \<open>getValue\<close> ends the process with the message of an
  undefined variable, as it does once the empty binding is erased.
\<close>

lemma empty_binding_example:
  \<open>getValue ''api_key'' None (started [(''API_KEY'', [])] []) =
     fatal [Lit ''The "'', Sub (JStr ''API_KEY''), Lit '' environment variable is undefined!'']
       (started [(''API_KEY'', [])] [])\<close>
  by (simp add: getValue_def upper_api_key suffix_fallback_def started_simps truthy_simps Let_def)

theorem empty_string_is_unset_witness:
  \<open>getValue ''api_key'' None (erase_world (started [(''API_KEY'', [])] [])) =
     map_world erase_world
       (fatal [Lit ''The "'', Sub (JStr ''API_KEY''), Lit '' environment variable is undefined!'']
          (started [(''API_KEY'', [])] []))
   \<and> getValue ''api_key'' (Some []) (started [(''API_KEY'', [])] []) =
       fatal [Lit ''The "'', Sub (JStr ''API_KEY''), Lit '' environment variable is undefined!'']
         (started [(''API_KEY'', [])] [])\<close>
  using empty_string_is_unset [of "''api_key''" None "started [(''API_KEY'', [])] []"]
    empty_binding_example
  by simp

section \<open>The path predicate\<close>

lemma resolve_logs: "path_resolve ''/app'' ''./logs'' = ''/app/logs''"
  by code_simp




lemma upper_log_path: "toUpperCase ''LOG_PATH'' = ''LOG_PATH''"
  by code_simp






lemma tree_app_logs_missing: "\<not> existsSync (map_of [([''app''], Dir)]) ''/app/logs''"
  by code_simp


lemma tree_app_logs_present:
  "existsSync (map_of [([''app''], Dir), ([''app'', ''logs''], Dir)]) ''/app/logs''"
  by code_simp






text \<open>
  Claim C10. \<open>isPath\<close> writes the resolved path into the environment table
  before it checks that the path exists. So when \<open>isPath False\<close> finds no such
  path and ends the process, the table already binds the chain's name to the
  resolved path: unless that was its binding before, the failed call has
  changed the table.
\<close>

theorem isPath_failure_updates_env:
  assumes "\<not> existsSync (fs w) (path_resolve (cwd w) (chain_value c))"
  shows \<open>\<exists>w'. isPath False c w = Exit 1 w'
          \<and> env w' = (env w)(chain_name c \<mapsto> path_resolve (cwd w) (chain_value c))
          \<and> (env w (chain_name c) \<noteq> Some (path_resolve (cwd w) (chain_value c)) \<longrightarrow> env w' \<noteq> env w)
          \<and> fs w' = fs w
          \<and> out w' = out w @ [[Lit ''"'', Sub (JStr (chain_name c)), Lit ''" is "'',
                                Sub (JStr (path_resolve (cwd w) (chain_value c))),
                                Lit ''" but it does not exist!''], [],
                               [Lit ''Terminating application!'']]\<close>
proof -
  have "(env w)(chain_name c \<mapsto> path_resolve (cwd w) (chain_value c)) \<noteq> env w"
    if "env w (chain_name c) \<noteq> Some (path_resolve (cwd w) (chain_value c))"
    using that by (metis fun_upd_same)
  then show ?thesis
    using assms by (simp add: isPath_def Let_def fatal_def)
qed

theorem isPath_failure_updates_env_witness:
  \<open>\<exists>w'. isPath False (fresh_chain ''LOG_PATH'' ''./logs'')
            (started [(''LOG_PATH'', ''./logs'')] [([''app''], Dir)]) = Exit 1 w'
        \<and> env w' ''LOG_PATH'' = Some ''/app/logs''\<close>
proof -
  have "\<not> existsSync (fs (started [(''LOG_PATH'', ''./logs'')] [([''app''], Dir)]))
          (path_resolve (cwd (started [(''LOG_PATH'', ''./logs'')] [([''app''], Dir)]))
             (chain_value (fresh_chain ''LOG_PATH'' ''./logs'')))"
    using tree_app_logs_missing by (simp add: started_simps fresh_chain_def resolve_logs)
  from isPath_failure_updates_env[OF this]
  show ?thesis by (auto simp: fresh_chain_def started_simps resolve_logs)
qed

section \<open>The numeric example\<close>

lemma upper_server_port: "toUpperCase ''SERVER_PORT'' = ''SERVER_PORT''"
  by code_simp

lemma port_ge_1000: "js_ge (JStr ''4000'') (JNum (Fin 1000))"
  by code_simp

lemma port_le_60000: "js_le (JStr ''4000'') (JNum (Fin 60000))"
  by code_simp

lemma port_ne_4001: "\<not> js_eq (JStr ''4000'') (JNum (Fin 4001))"
  by code_simp

lemma port_number: "ToNumber (JStr ''4000'') = Fin 4000"
  by code_simp

lemma confirm_server_port:
  assumes "env w ''SERVER_PORT'' = Some ''4000''"
  shows "confirm ''SERVER_PORT'' d w = Return (fresh_chain ''SERVER_PORT'' ''4000'') w"
proof -
  have "suffix_fallback ''SERVER_PORT'' w = (Some ''4000'', w)"
    using assms by (simp add: suffix_fallback_def truthy_simps)
  then show ?thesis
    by (simp add: confirm_def getValue_def upper_server_port truthy_simps string_of_def
        fresh_chain_def)
qed

lemma server_port_isEQ_4001:
  assumes "env w ''SERVER_PORT'' = Some ''4000''"
  shows \<open>run rx ''SERVER_PORT'' d [IsEQ (JNum (Fin 4001))] w =
           fatal [Lit ''"'', Sub (JStr ''SERVER_PORT''), Lit ''" is '', Sub (JStr ''4000''),
                  Lit '' and must be equal to '', Sub (JNum (Fin 4001))] w\<close>
  using confirm_server_port[OF assms] port_ne_4001
  by (simp add: run_def fresh_chain_def isEQ_def fatal_def)

text \<open>
  Claim C8. With \<^verbatim>\<open>SERVER_PORT\<close> bound to the string \<^verbatim>\<open>"4000"\<close>,
  \<^verbatim>\<open>confirm("SERVER_PORT").isGE(1000).isLE(60000)\<close> returns the chain, and
  \<^verbatim>\<open>confirm("SERVER_PORT").isEQ(4001)\<close> ends the process. The ordering
  comparison of the string with a number is the comparison of the numbers
  \<open>4000\<close> and \<open>1000\<close>.
\<close>

theorem server_port_example:
  assumes "env w ''SERVER_PORT'' = Some ''4000''"
  shows \<open>run rx ''SERVER_PORT'' d [IsGE (JNum (Fin 1000)), IsLE (JNum (Fin 60000))] w =
           Return \<lparr>chain_name = ''SERVER_PORT'', chain_value = ''4000'',
                   chain_NOT = False, chain_valid = True\<rparr> w
       \<and> run rx ''SERVER_PORT'' d [IsEQ (JNum (Fin 4001))] w =
           fatal [Lit ''"'', Sub (JStr ''SERVER_PORT''), Lit ''" is '', Sub (JStr ''4000''),
                  Lit '' and must be equal to '', Sub (JNum (Fin 4001))] w
       \<and> IsLessThan (JStr ''4000'') (JNum (Fin 1000)) = num_lt (Fin 4000) (Fin 1000)\<close>
  using confirm_server_port[OF assms] server_port_isEQ_4001[OF assms] port_ge_1000 port_le_60000
    port_number
  by (simp add: run_def fresh_chain_def isGE_def isLE_def IsLessThan_def ToNumber_def)

theorem server_port_example_witness:
  \<open>run no_regexp ''SERVER_PORT'' None [IsGE (JNum (Fin 1000)), IsLE (JNum (Fin 60000))]
      (started [(''SERVER_PORT'', ''4000'')] []) =
     Return \<lparr>chain_name = ''SERVER_PORT'', chain_value = ''4000'',
             chain_NOT = False, chain_valid = True\<rparr> (started [(''SERVER_PORT'', ''4000'')] [])
   \<and> (\<exists>w'. run no_regexp ''SERVER_PORT'' None [IsEQ (JNum (Fin 4001))]
              (started [(''SERVER_PORT'', ''4000'')] []) = Exit 1 w')\<close>
  using server_port_example [of "started [(''SERVER_PORT'', ''4000'')] []" no_regexp None]
  by (simp add: started_simps fatal_def)

section \<open>The contract of the predicates\<close>

lemma Return_neq_fatal [simp]: "Return x w \<noteq> fatal m w'" "fatal m w' \<noteq> Return x w"
  by (simp_all add: fatal_def)

lemma Throw_neq_fatal [simp]: "Throw e w \<noteq> fatal m w'" "fatal m w' \<noteq> Throw e w"
  by (simp_all add: fatal_def)

lemma is_m_contract:
  \<open>is_m x c w =
     (if js_eq (JStr (chain_value c)) x \<noteq> chain_NOT c
      then Return (c\<lparr>chain_valid := True, chain_NOT := False\<rparr>) w
      else fatal [Lit ''"'', Sub (JStr (chain_name c)), Lit ''" is '', Sub (JStr (chain_value c)),
                  Lit (if chain_NOT c then '' and must not be equal to ''
                       else '' and must be equal to ''), Sub x] w)\<close>
  by (auto simp: is_m_def Let_def)

lemma isDefined_contract:
  \<open>isDefined c w =
     (if \<not> chain_NOT c
      then Return (c\<lparr>chain_valid := True, chain_NOT := False\<rparr>) w
      else fatal [Lit ''"'', Sub (JStr (chain_name c)), Lit ''" must not be defined''] w)\<close>
  by (auto simp: isDefined_def Let_def)

lemma isEQ_contract:
  \<open>isEQ x c w =
     (if js_eq (JStr (chain_value c)) x \<noteq> chain_NOT c
      then Return (c\<lparr>chain_valid := True, chain_NOT := False\<rparr>) w
      else fatal [Lit ''"'', Sub (JStr (chain_name c)), Lit ''" is '', Sub (JStr (chain_value c)),
                  Lit (if chain_NOT c then '' and must not be equal to ''
                       else '' and must be equal to ''), Sub x] w)\<close>
  by (auto simp: isEQ_def Let_def)

lemma isGT_contract:
  \<open>isGT x c w =
     (if js_gt (JStr (chain_value c)) x \<noteq> chain_NOT c
      then Return (c\<lparr>chain_valid := True, chain_NOT := False\<rparr>) w
      else fatal [Lit ''"'', Sub (JStr (chain_name c)), Lit ''" is '', Sub (JStr (chain_value c)),
                  Lit (if chain_NOT c then '' and must be less than or equal ''
                       else '' and must be greater than ''), Sub x] w)\<close>
  by (auto simp: isGT_def Let_def)

lemma isGE_contract:
  \<open>isGE x c w =
     (if js_ge (JStr (chain_value c)) x \<noteq> chain_NOT c
      then Return (c\<lparr>chain_valid := True, chain_NOT := False\<rparr>) w
      else fatal [Lit ''"'', Sub (JStr (chain_name c)), Lit ''" is '', Sub (JStr (chain_value c)),
                  Lit (if chain_NOT c then '' and must be less than ''
                       else '' and must be greater than or equal to ''), Sub x] w)\<close>
  by (auto simp: isGE_def Let_def)

lemma isLT_contract:
  \<open>isLT x c w =
     (if js_lt (JStr (chain_value c)) x \<noteq> chain_NOT c
      then Return (c\<lparr>chain_valid := True, chain_NOT := False\<rparr>) w
      else fatal [Lit ''"'', Sub (JStr (chain_name c)), Lit ''" is '', Sub (JStr (chain_value c)),
                  Lit (if chain_NOT c then '' and must be greater than or equal ''
                       else '' and must be less than ''), Sub x] w)\<close>
  by (auto simp: isLT_def Let_def)

lemma isLE_contract:
  \<open>isLE x c w =
     (if js_le (JStr (chain_value c)) x \<noteq> chain_NOT c
      then Return (c\<lparr>chain_valid := True, chain_NOT := False\<rparr>) w
      else fatal [Lit ''"'', Sub (JStr (chain_name c)), Lit ''" is '', Sub (JStr (chain_value c)),
                  Lit (if chain_NOT c then '' and must be greater than ''
                       else '' and must be less than or equal to ''), Sub x] w)\<close>
  by (auto simp: isLE_def Let_def)

lemma hasLength_contract:
  \<open>hasLength lo hi c w =
     (if (js_ge (length_of (chain_value c)) lo \<and> js_le (length_of (chain_value c)) hi) \<noteq> chain_NOT c
      then Return (c\<lparr>chain_valid := True, chain_NOT := False\<rparr>) w
      else fatal [Lit ''"'', Sub (JStr (chain_name c)), Lit ''" is '', Sub (length_of (chain_value c)),
                  Lit (if chain_NOT c then '' long and must not be between ''
                       else '' long and must be between ''), Sub lo, Lit '' and '', Sub hi,
                  Lit '' long''] w)\<close>
  by (auto simp: hasLength_def Let_def)

lemma contains_contract:
  \<open>contains s c w =
     (if includes_str (chain_value c) s \<noteq> chain_NOT c
      then Return (c\<lparr>chain_valid := True, chain_NOT := False\<rparr>) w
      else fatal ([Lit ''"'', Sub (JStr (chain_name c)), Lit ''" is "'', Sub (JStr (chain_value c)),
                   Lit (if chain_NOT c then ''" and must not contain "''
                        else '' "and must contain "''), Sub (JStr s)]
                  @ (if chain_NOT c then [] else [Lit ''"''])) w)\<close>
  by (auto simp: contains_def Let_def)

lemma matches_contract:
  \<open>rx p (chain_value c) = Some r \<Longrightarrow>
   matches rx p c w =
     (if r \<noteq> chain_NOT c
      then Return (c\<lparr>chain_valid := True, chain_NOT := False\<rparr>) w
      else fatal ([Lit ''"'', Sub (JStr (chain_name c)), Lit ''" is "'', Sub (JStr (chain_value c)),
                   Lit (if chain_NOT c then ''" and must not matched the regular expression "''
                        else '' "and does not match the regular expression "''), Sub (JStr p)]
                  @ (if chain_NOT c then [] else [Lit ''"''])) w)\<close>
  by (auto simp: matches_def Let_def)

lemma isIn_contract:
  \<open>isIn vs c w =
     (if List.member vs (JStr (chain_value c)) \<noteq> chain_NOT c
      then Return (c\<lparr>chain_valid := True, chain_NOT := False\<rparr>) w
      else fatal ([Lit ''"'', Sub (JStr (chain_name c)), Lit ''" is "'', Sub (JStr (chain_value c)),
                   Lit (if chain_NOT c then ''" and must not be in the array ''
                        else '' " and must be in the array '')]
                  @ (if chain_NOT c then [SubArray vs] else arrayToText vs)) w)\<close>
  by (auto simp: isIn_def Let_def)

lemmas method_contracts =
  is_m_contract isDefined_contract isEQ_contract isGT_contract isGE_contract isLT_contract
  isLE_contract hasLength_contract contains_contract isIn_contract

lemma invoke_relation:
  assumes "relation_holds rx (chain_value c) p = Some r"
  shows "(r \<noteq> chain_NOT c \<longrightarrow>
            invoke rx p c w = Return (c\<lparr>chain_valid := True, chain_NOT := False\<rparr>) w)
       \<and> (r = chain_NOT c \<longrightarrow>
            (\<exists>m. invoke rx p c w = fatal m w \<and> Sub (JStr (chain_name c)) \<in> set m))"
  using assms
  by (cases p) (auto simp: method_contracts matches_contract)

lemma isPath_resets:
  "invoke rx (IsPath force) c w = Return c' w' \<Longrightarrow> \<not> chain_NOT c'"
  by (auto simp: isPath_def Let_def split: if_splits sum.splits)

lemma wording_differs:
  assumes "invoke rx p c w = fatal m w" and "invoke rx p c' w' = fatal m' w'"
    and "chain_NOT c' \<noteq> chain_NOT c"
    and "relation_holds rx v p = Some r"
  shows "m \<noteq> m'"
proof (cases p)
  case Not
  then show ?thesis using assms by (simp add: not_m_def)
next
  case (Is x)
  then show ?thesis using assms
    by (auto simp: is_m_contract fatal_eq_iff split: if_splits)
next
  case IsDefined
  then show ?thesis using assms
    by (auto simp: isDefined_contract fatal_eq_iff split: if_splits)
next
  case (IsEQ x)
  then show ?thesis using assms
    by (auto simp: isEQ_contract fatal_eq_iff split: if_splits)
next
  case (IsGT x)
  then show ?thesis using assms
    by (auto simp: isGT_contract fatal_eq_iff split: if_splits)
next
  case (IsGE x)
  then show ?thesis using assms
    by (auto simp: isGE_contract fatal_eq_iff split: if_splits)
next
  case (IsLT x)
  then show ?thesis using assms
    by (auto simp: isLT_contract fatal_eq_iff split: if_splits)
next
  case (IsLE x)
  then show ?thesis using assms
    by (auto simp: isLE_contract fatal_eq_iff split: if_splits)
next
  case (HasLength lo hi)
  then show ?thesis using assms
    by (auto simp: hasLength_contract fatal_eq_iff split: if_splits)
next
  case (Contains s)
  then show ?thesis using assms
    by (auto simp: contains_contract fatal_eq_iff split: if_splits)
next
  case (Matches pat)
  then show ?thesis using assms
    by (auto simp: matches_def Let_def fatal_eq_iff split: if_splits option.splits)
next
  case (IsIn vs)
  then show ?thesis using assms
    by (auto simp: isIn_contract fatal_eq_iff split: if_splits)
next
  case (IsPath force)
  then show ?thesis using assms by simp
qed

text \<open>
  Claim C1, as amended. Let \<open>p\<close> be a call of \<open>is\<close>, \<open>isEQ\<close>, \<open>isGT\<close>,
  \<open>isGE\<close>, \<open>isLT\<close>, \<open>isLE\<close>, \<open>hasLength\<close>, \<open>contains\<close>, \<open>isIn\<close>, or of
  \<open>matches\<close> with a pattern the host accepts (or of \<open>isDefined\<close>), and let \<open>r\<close>
  be the boolean result it computes from the chain's value. The call inverts
  \<open>r\<close> when a negation is pending. If the final result is true it returns the
  chain with the negation flag reset to false and prints nothing; if the final
  result is false it ends the process with a message that names the variable.
  The message of a negated failure differs from the message of a non-negated
  failure of the same call. \<open>isPath\<close>, whenever it returns the chain, has
  reset the negation flag as well.
\<close>

theorem predicate_contract:
  assumes "relation_holds rx (chain_value c) p = Some r"
  shows "(r \<noteq> chain_NOT c \<longrightarrow>
            invoke rx p c w = Return (c\<lparr>chain_valid := True, chain_NOT := False\<rparr>) w)
       \<and> (r = chain_NOT c \<longrightarrow>
            (\<exists>m. invoke rx p c w = fatal m w \<and> Sub (JStr (chain_name c)) \<in> set m))
       \<and> (\<forall>m m' c' w'. invoke rx p c w = fatal m w \<and> invoke rx p c' w' = fatal m' w'
              \<and> chain_NOT c' \<noteq> chain_NOT c \<longrightarrow> m \<noteq> m')
       \<and> (\<forall>force c' w'. invoke rx (IsPath force) c w = Return c' w' \<longrightarrow> \<not> chain_NOT c')"
proof -
  have "m \<noteq> m'"
    if "invoke rx p c w = fatal m w" "invoke rx p c' w' = fatal m' w'" "chain_NOT c' \<noteq> chain_NOT c"
    for m m' c' w'
    using wording_differs[OF that assms] .
  moreover have "\<not> chain_NOT c'" if "invoke rx (IsPath force) c w = Return c' w'" for force c' w'
    using isPath_resets[OF that] .
  ultimately show ?thesis
    using invoke_relation[OF assms, of w] by blast
qed

theorem predicate_contract_witness:
  \<open>invoke no_regexp (IsEQ (JNum (Fin 4001)))
      ((fresh_chain ''SERVER_PORT'' ''4000'')\<lparr>chain_NOT := True\<rparr>)
      (started [(''SERVER_PORT'', ''4000'')] []) =
     Return ((fresh_chain ''SERVER_PORT'' ''4000'')\<lparr>chain_valid := True\<rparr>)
       (started [(''SERVER_PORT'', ''4000'')] [])\<close>
  using predicate_contract
    [of no_regexp "(fresh_chain ''SERVER_PORT'' ''4000'')\<lparr>chain_NOT := True\<rparr>"
        "IsEQ (JNum (Fin 4001))" False "started [(''SERVER_PORT'', ''4000'')] []"]
    port_ne_4001
  by (simp add: fresh_chain_def del: invoke.simps)

text \<open>
  The claim as stated fails for \<open>isPath\<close>, which does not invert its result:
  with a negation pending and the resolved path \<^verbatim>\<open>/app/logs\<close> present,
  \<open>isPath False\<close> returns the chain, where the inverted result would end the
  process.
\<close>

theorem isPath_pending_negation_counterexample:
  \<open>chain_NOT ((fresh_chain ''LOG_PATH'' ''./logs'')\<lparr>chain_NOT := True\<rparr>)
   \<and> existsSync (fs (started [(''LOG_PATH'', ''./logs'')] [([''app''], Dir), ([''app'', ''logs''], Dir)]))
        (path_resolve ''/app'' ''./logs'')
   \<and> invoke no_regexp (IsPath False) ((fresh_chain ''LOG_PATH'' ''./logs'')\<lparr>chain_NOT := True\<rparr>)
        (started [(''LOG_PATH'', ''./logs'')] [([''app''], Dir), ([''app'', ''logs''], Dir)]) =
      Return (fresh_chain ''LOG_PATH'' ''/app/logs'')
        ((started [(''LOG_PATH'', ''./logs'')] [([''app''], Dir), ([''app'', ''logs''], Dir)])
           \<lparr>env := (map_of [(''LOG_PATH'', ''./logs'')])(''LOG_PATH'' \<mapsto> ''/app/logs'')\<rparr>)\<close>
  using tree_app_logs_present
  by (simp add: isPath_def Let_def started_simps fresh_chain_def resolve_logs)

section \<open>The negation flag\<close>

lemma run_nots:
  "run_chain rx (replicate k Not @ ms) c w =
     run_chain rx ms (c\<lparr>chain_NOT := (chain_NOT c \<noteq> odd k)\<rparr>) w"
proof (induction k arbitrary: c)
  case 0
  then show ?case by simp
next
  case (Suc k)
  have "run_chain rx (replicate (Suc k) Not @ ms) c w =
          run_chain rx (replicate k Not @ ms) (c\<lparr>chain_NOT := \<not> chain_NOT c\<rparr>) w"
    by (simp add: not_m_def)
  also have "\<dots> = run_chain rx ms (c\<lparr>chain_NOT := (chain_NOT c \<noteq> odd (Suc k))\<rparr>) w"
    by (simp add: Suc.IH) 
  finally show ?case .
qed

lemma invoke_resets:
  assumes "p \<noteq> Not" and "invoke rx p c w = Return c' w'"
  shows "\<not> chain_NOT c'"
  using assms
  by (cases p)
     (auto simp: method_contracts matches_def isPath_def Let_def
           split: if_splits option.splits sum.splits)

lemma confirm_flag: "confirm n d w = Return c w' \<Longrightarrow> \<not> chain_NOT c"
  by (auto simp: confirm_def split: outcome.splits)

text \<open>
  Claim C7, as amended. The negation flag is false in the chain \<open>confirm\<close>
  returns, every access of \<^verbatim>\<open>not\<close> toggles it, and every predicate that
  returns the chain, \<open>isPath\<close> included, has reset it to false. Hence, for a
  chain whose flag is false (a new chain, or the chain a predicate returned),
  \<open>k\<close> accesses of \<^verbatim>\<open>not\<close> followed by one of the predicates \<open>is\<close>,
  \<open>isDefined\<close>, \<open>isEQ\<close>, \<open>isGT\<close>, \<open>isGE\<close>, \<open>isLT\<close>, \<open>isLE\<close>, \<open>hasLength\<close>,
  \<open>contains\<close>, \<open>matches\<close>, \<open>isIn\<close> succeed exactly when the predicate's
  result \<open>r\<close>, inverted if and only if \<open>k\<close> is odd, is true.
\<close>

theorem negation_flag_parity:
  "(confirm n d w = Return c w' \<longrightarrow> \<not> chain_NOT c)
   \<and> not_m c w = Return (c\<lparr>chain_NOT := \<not> chain_NOT c\<rparr>) w
   \<and> (p \<noteq> Not \<and> invoke rx p c w = Return c' w'' \<longrightarrow> \<not> chain_NOT c')
   \<and> (\<not> chain_NOT c \<and> relation_holds rx (chain_value c) p = Some r \<longrightarrow>
        (\<exists>c' w'. run_chain rx (replicate k Not @ [p]) c w = Return c' w')
          = (if odd k then \<not> r else r))"
proof -
  have "(\<exists>c' w'. run_chain rx (replicate k Not @ [p]) c w = Return c' w') = (if odd k then \<not> r else r)"
    if nf: "\<not> chain_NOT c" and rel: "relation_holds rx (chain_value c) p = Some r"
  proof -
    let ?c = "c\<lparr>chain_NOT := (chain_NOT c \<noteq> odd k)\<rparr>"
    have rel': "relation_holds rx (chain_value ?c) p = Some r" using rel by simp
    have flag: "chain_NOT ?c = odd k" using nf by simp
    have split: "run_chain rx (replicate k Not @ [p]) c w = run_chain rx [p] ?c w"
      by (rule run_nots)
    show ?thesis
    proof (cases "r \<noteq> odd k")
      case True
      then have "r \<noteq> chain_NOT ?c" using flag by simp
      then obtain c'' where "invoke rx p ?c w = Return c'' w"
        using invoke_relation[OF rel', of w] by blast
      then have "run_chain rx [p] ?c w = Return c'' w" by simp
      then show ?thesis using True split by auto
    next
      case False
      then have "r = chain_NOT ?c" using flag by simp
      then obtain m where "invoke rx p ?c w = fatal m w"
        using invoke_relation[OF rel', of w] by blast
      then have "run_chain rx [p] ?c w = fatal m w" by (simp add: fatal_def)
      then show ?thesis using False split by (auto simp: fatal_def)
    qed
  qed
  moreover have "\<not> chain_NOT c'" if "p \<noteq> Not" "invoke rx p c w = Return c' w''"
    using invoke_resets[OF that] .
  ultimately show ?thesis
    using confirm_flag[of n d w c w'] by (simp add: not_m_def del: invoke.simps) 
qed

theorem negation_flag_parity_witness:
  \<open>\<exists>c' w'. run_chain no_regexp [Not, Not, Not, IsEQ (JNum (Fin 4001))]
              (fresh_chain ''SERVER_PORT'' ''4000'') (started [(''SERVER_PORT'', ''4000'')] []) =
            Return c' w'\<close>
  using negation_flag_parity
    [where c = "fresh_chain ''SERVER_PORT'' ''4000''" and p = "IsEQ (JNum (Fin 4001))"
       and rx = no_regexp and r = False and k = 3
       and w = "started [(''SERVER_PORT'', ''4000'')] []"]
    port_ne_4001
  by (simp add: fresh_chain_def numeral_3_eq_3 del: invoke.simps run_chain.simps)

text \<open>
  The claim as stated fails for \<open>isPath\<close>: one access of \<^verbatim>\<open>not\<close> before
  \<open>isPath False\<close> does not invert its outcome. With the resolved path
  present, the call returns the chain with and without the access.
\<close>

theorem not_isPath_counterexample:
  \<open>run_chain no_regexp [IsPath False] (fresh_chain ''LOG_PATH'' ''./logs'')
      (started [(''LOG_PATH'', ''./logs'')] [([''app''], Dir), ([''app'', ''logs''], Dir)]) =
     Return (fresh_chain ''LOG_PATH'' ''/app/logs'')
       ((started [(''LOG_PATH'', ''./logs'')] [([''app''], Dir), ([''app'', ''logs''], Dir)])
          \<lparr>env := (map_of [(''LOG_PATH'', ''./logs'')])(''LOG_PATH'' \<mapsto> ''/app/logs'')\<rparr>)
   \<and> run_chain no_regexp [Not, IsPath False] (fresh_chain ''LOG_PATH'' ''./logs'')
      (started [(''LOG_PATH'', ''./logs'')] [([''app''], Dir), ([''app'', ''logs''], Dir)]) =
     Return (fresh_chain ''LOG_PATH'' ''/app/logs'')
       ((started [(''LOG_PATH'', ''./logs'')] [([''app''], Dir), ([''app'', ''logs''], Dir)])
          \<lparr>env := (map_of [(''LOG_PATH'', ''./logs'')])(''LOG_PATH'' \<mapsto> ''/app/logs'')\<rparr>)\<close>
  using tree_app_logs_present
  by (simp add: isPath_def not_m_def Let_def started_simps fresh_chain_def resolve_logs)

section \<open>Failure ends the process\<close>

text \<open>
  The earlier variant of \<open>fatal\<close>, in \<^verbatim>\<open>index.js\<close>, throws an error object
  instead. The statements below are about the final variant.
\<close>

lemma fatal_index_throws: "fatal_index m w = Throw (Error m) w"
  by (simp add: fatal_index_def)



















section \<open>The case of the name\<close>

lemma getValue_upper: "getValue (toUpperCase n) d w = getValue n d w"
  by (simp add: getValue_def toUpperCase_idem toUpperCase_Nil_iff)

lemma upper_name_simps:
  "upper_name n (Sub (JStr n)) = Sub (JStr (toUpperCase n))"
  "upper_name n (Sub (JStr (toUpperCase n))) = Sub (JStr (toUpperCase n))"
  by (simp_all add: upper_name_def)

lemma same_process_refl: "same_process n b w w"
  by (simp add: same_process_def)

lemma same_process_fatal:
  assumes "same_process n b w w'" and "map (upper_name n) m = map (upper_name n) m'"
  shows "same_outcome n b (fatal m w) (fatal m' w')"
  using assms by (simp add: fatal_def same_process_def)

lemma same_process_weaken: "same_process n b w w' \<Longrightarrow> same_process n False w w'"
  by (simp add: same_process_def)

lemma isPath_sim:
  assumes "chain_name c = n" and "c' = c\<lparr>chain_name := toUpperCase n\<rparr>"
    and "same_process n False w w'"
  shows "same_outcome n False (isPath force c w) (isPath force c' w')"
proof -
  from assms(3) have eq: "fs w' = fs w" "cwd w' = cwd w"
    "map (map (upper_name n)) (out w') = map (map (upper_name n)) (out w)"
    by (simp_all add: same_process_def)
  show ?thesis
    using assms(1,2) eq
    by (simp add: isPath_def Let_def fatal_def same_process_def upper_name_simps
          split: sum.splits)
qed

lemma invoke_sim:
  assumes "chain_name c = n" and "c' = c\<lparr>chain_name := toUpperCase n\<rparr>"
    and "same_process n b w w'" and "b \<longrightarrow> \<not> is_path_call p"
  shows "same_outcome n b (invoke rx p c w) (invoke rx p c' w')"
proof (cases p)
  case Not
  then show ?thesis using assms by (simp add: not_m_def)
next
  case (Is x)
  then show ?thesis using assms
    by (simp add: is_m_contract same_process_fatal upper_name_simps)
next
  case IsDefined
  then show ?thesis using assms
    by (simp add: isDefined_contract same_process_fatal upper_name_simps)
next
  case (IsEQ x)
  then show ?thesis using assms
    by (simp add: isEQ_contract same_process_fatal upper_name_simps)
next
  case (IsGT x)
  then show ?thesis using assms
    by (simp add: isGT_contract same_process_fatal upper_name_simps)
next
  case (IsGE x)
  then show ?thesis using assms
    by (simp add: isGE_contract same_process_fatal upper_name_simps)
next
  case (IsLT x)
  then show ?thesis using assms
    by (simp add: isLT_contract same_process_fatal upper_name_simps)
next
  case (IsLE x)
  then show ?thesis using assms
    by (simp add: isLE_contract same_process_fatal upper_name_simps)
next
  case (HasLength lo hi)
  then show ?thesis using assms
    by (simp add: hasLength_contract same_process_fatal upper_name_simps)
next
  case (Contains s)
  then show ?thesis using assms
    by (simp add: contains_contract same_process_fatal upper_name_simps)
next
  case (Matches pat)
  then show ?thesis using assms
    by (cases "rx pat (chain_value c)")
       (simp_all add: matches_def matches_contract same_process_fatal upper_name_simps)
next
  case (IsIn vs)
  then show ?thesis using assms
    by (simp add: isIn_contract same_process_fatal upper_name_simps)
next
  case (IsPath force)
  then have "\<not> b" using assms(4) by simp
  then show ?thesis using IsPath assms isPath_sim[of c n c' w w' force] by simp
qed

lemma run_chain_sim:
  assumes "chain_name c = n" and "c' = c\<lparr>chain_name := toUpperCase n\<rparr>"
    and "same_process n b w w'" and "b \<longrightarrow> path_free ms"
  shows "same_outcome n b (run_chain rx ms c w) (run_chain rx ms c' w')"
  using assms
proof (induction ms arbitrary: c c' w w')
  case Nil
  then show ?case by simp
next
  case (Cons p ms)
  have step: "same_outcome n b (invoke rx p c w) (invoke rx p c' w')"
    using Cons.prems by (intro invoke_sim) (simp_all add: path_free_def)
  have rest: "b \<longrightarrow> path_free ms" using Cons.prems(4) by (simp add: path_free_def)
  show ?case
  proof (cases "invoke rx p c w")
    case (Return c1 w1)
    then obtain c1' w1' where r': "invoke rx p c' w' = Return c1' w1'"
      using step by (cases "invoke rx p c' w'") simp_all
    then show ?thesis
      using Return step Cons.IH[of c1 c1' w1 w1'] rest by simp
  next
    case (Exit k w1)
    then show ?thesis using step by (cases "invoke rx p c' w'") simp_all
  next
    case (Throw e w1)
    then show ?thesis using step by (cases "invoke rx p c' w'") simp_all
  qed
qed

text \<open>
  Claim C5, as amended. For every name \<open>n\<close>, default and chain of calls, the
  run with \<open>n\<close> and the run with the upper-case form of \<open>n\<close> end alike: both
  return, both exit with the same code or both throw the same error; they
  leave the same directory tree and have printed the same messages, except
  that the message of a failed predicate quotes the name as it was passed;
  two returned chains agree on the value and the flags. If the chain has no
  call of \<open>isPath\<close>, the two runs also leave the same environment table.
\<close>

theorem name_case_insensitive:
  "same_outcome n (path_free ms) (run rx n d ms w) (run rx (toUpperCase n) d ms w)"
proof (cases "getValue n d w")
  case (Return v w1)
  then show ?thesis
    using run_chain_sim[where n = n and b = "path_free ms" and rx = rx and ms = ms and w = w1
        and w' = w1 and c = "\<lparr>chain_name = n, chain_value = v, chain_NOT = False, chain_valid = False\<rparr>"
        and c' = "\<lparr>chain_name = toUpperCase n, chain_value = v, chain_NOT = False, chain_valid = False\<rparr>"]
    by (simp add: run_def confirm_def getValue_upper same_process_refl)
next
  case (Exit k w1)
  then show ?thesis by (simp add: run_def confirm_def getValue_upper same_process_refl)
next
  case (Throw e w1)
  then show ?thesis by (simp add: run_def confirm_def getValue_upper same_process_refl)
qed

lemma upper_lc_server_port: "toUpperCase ''server_port'' = ''SERVER_PORT''"
  by code_simp

lemma confirm_lc_server_port:
  assumes "env w ''SERVER_PORT'' = Some ''4000''"
  shows "confirm ''server_port'' d w = Return (fresh_chain ''server_port'' ''4000'') w"
proof -
  have "suffix_fallback ''SERVER_PORT'' w = (Some ''4000'', w)"
    using assms by (simp add: suffix_fallback_def truthy_simps)
  then show ?thesis
    by (simp add: confirm_def getValue_def upper_lc_server_port truthy_simps string_of_def
        fresh_chain_def)
qed

theorem name_case_insensitive_witness:
  \<open>same_outcome ''server_port'' True
     (run no_regexp ''server_port'' None [IsEQ (JNum (Fin 4001))] (started [(''SERVER_PORT'', ''4000'')] []))
     (run no_regexp ''SERVER_PORT'' None [IsEQ (JNum (Fin 4001))] (started [(''SERVER_PORT'', ''4000'')] []))\<close>
  using name_case_insensitive
    [where n = "''server_port''" and ms = "[IsEQ (JNum (Fin 4001))]" and rx = no_regexp
       and d = None and w = "started [(''SERVER_PORT'', ''4000'')] []"]
  by (simp add: upper_lc_server_port path_free_def del: same_outcome.simps)

text \<open>
  The claim as stated fails on the messages: a failed predicate quotes the
  name as the caller wrote it, so the two runs print different messages.
\<close>

theorem message_quotes_name_counterexample:
  \<open>run no_regexp ''server_port'' None [IsEQ (JNum (Fin 4001))] (started [(''SERVER_PORT'', ''4000'')] []) =
     fatal [Lit ''"'', Sub (JStr ''server_port''), Lit ''" is '', Sub (JStr ''4000''),
            Lit '' and must be equal to '', Sub (JNum (Fin 4001))]
       (started [(''SERVER_PORT'', ''4000'')] [])
   \<and> run no_regexp ''SERVER_PORT'' None [IsEQ (JNum (Fin 4001))] (started [(''SERVER_PORT'', ''4000'')] []) =
     fatal [Lit ''"'', Sub (JStr ''SERVER_PORT''), Lit ''" is '', Sub (JStr ''4000''),
            Lit '' and must be equal to '', Sub (JNum (Fin 4001))]
       (started [(''SERVER_PORT'', ''4000'')] [])
   \<and> run no_regexp ''server_port'' None [IsEQ (JNum (Fin 4001))] (started [(''SERVER_PORT'', ''4000'')] [])
     \<noteq> run no_regexp ''SERVER_PORT'' None [IsEQ (JNum (Fin 4001))] (started [(''SERVER_PORT'', ''4000'')] [])\<close>
proof -
  let ?w = "started [(''SERVER_PORT'', ''4000'')] []"
  have e: "env ?w ''SERVER_PORT'' = Some ''4000''" by (simp add: started_simps)
  have a: \<open>run no_regexp ''server_port'' None [IsEQ (JNum (Fin 4001))] ?w =
     fatal [Lit ''"'', Sub (JStr ''server_port''), Lit ''" is '', Sub (JStr ''4000''),
            Lit '' and must be equal to '', Sub (JNum (Fin 4001))] ?w\<close>
    using confirm_lc_server_port[OF e] port_ne_4001
    by (simp add: run_def fresh_chain_def isEQ_def fatal_def)
  have b: \<open>run no_regexp ''SERVER_PORT'' None [IsEQ (JNum (Fin 4001))] ?w =
     fatal [Lit ''"'', Sub (JStr ''SERVER_PORT''), Lit ''" is '', Sub (JStr ''4000''),
            Lit '' and must be equal to '', Sub (JNum (Fin 4001))] ?w\<close>
    using server_port_isEQ_4001[OF e] .
  show ?thesis
    unfolding a b by (simp add: fatal_eq_iff)
qed

text \<open>
  The environment table after \<open>isPath\<close>: the resolved path is bound to the
  name as it was passed, while the value was read from the upper-case name.
  Called with \<^verbatim>\<open>log_path\<close>, the chain leaves \<^verbatim>\<open>LOG_PATH\<close> as it was and adds a
  binding for \<^verbatim>\<open>log_path\<close>.
\<close>

lemma upper_lc_log_path: "toUpperCase ''log_path'' = ''LOG_PATH''"
  by code_simp

lemma isPath_writes_name_as_passed:
  \<open>run no_regexp ''log_path'' None [IsPath False]
      (started [(''LOG_PATH'', ''./logs'')] [([''app''], Dir), ([''app'', ''logs''], Dir)]) =
     Return (fresh_chain ''log_path'' ''/app/logs'')
       ((started [(''LOG_PATH'', ''./logs'')] [([''app''], Dir), ([''app'', ''logs''], Dir)])
          \<lparr>env := (map_of [(''LOG_PATH'', ''./logs'')])(''log_path'' \<mapsto> ''/app/logs'')\<rparr>)
   \<and> run no_regexp ''LOG_PATH'' None [IsPath False]
      (started [(''LOG_PATH'', ''./logs'')] [([''app''], Dir), ([''app'', ''logs''], Dir)]) =
     Return (fresh_chain ''LOG_PATH'' ''/app/logs'')
       ((started [(''LOG_PATH'', ''./logs'')] [([''app''], Dir), ([''app'', ''logs''], Dir)])
          \<lparr>env := (map_of [(''LOG_PATH'', ''./logs'')])(''LOG_PATH'' \<mapsto> ''/app/logs'')\<rparr>)\<close>
  using tree_app_logs_present
  by (simp add: run_def confirm_def getValue_def suffix_fallback_def upper_lc_log_path
        upper_log_path truthy_simps string_of_def isPath_def Let_def started_simps
        fresh_chain_def resolve_logs)

end
